theory Spec2Isabelle
  imports Main
begin

section \<open>Data model\<close>

text \<open>
  Documents are identified by the hexadecimal string of their ObjectId. The payload that
  \<^verbatim>\<open>jwt.sign\<close> packs at login, and that \<^verbatim>\<open>jwt.verify\<close> gives back as
  \<^verbatim>\<open>req.user\<close>, has the fields \<^verbatim>\<open>_id, channelName, email, phone, logoId\<close>;
  \<^verbatim>\<open>_id\<close> is not an Isabelle name and is written \<open>jwt_id\<close>.
\<close>

type_synonym objectId = string

record jwtUser =
  jwt_id :: objectId
  channelName :: string
  email :: string
  phone :: string
  logoId :: string

text \<open>
  A Video document, with the fields the upload handler sets and the three the engagement
  handlers use. The counters are JavaScript Numbers holding integers; they are modelled as
  \<open>int\<close>. Adding or subtracting 1 is exact on a Number only while the value is an integer
  below \<open>2 ^ 53\<close> in absolute value (at \<open>2 ^ 53\<close> adding 1 changes nothing), so a
  statement that gives the exact value of a counter after an update carries that bound as a
  hypothesis. \<^verbatim>\<open>viewedBy\<close> is an array.
\<close>

record video =
  title :: string
  description :: string
  user_id :: objectId
  videoUrl :: string
  videoId :: string
  thumbnailUrl :: string
  thumbnailId :: string
  category :: string
  tags :: "string list"
  likes :: int
  dislikes :: int
  viewedBy :: "objectId list"

text \<open>
  A Comment document. Its owner field is \<^verbatim>\<open>user_id\<close> in the source; it is named
  \<open>comment_user_id\<close> here, apart from the field of the same name of a video. The text is
  optional: \<open>None\<close> is JavaScript's \<^verbatim>\<open>undefined\<close>.
\<close>

record comment =
  video_id :: objectId
  commentText :: "string option"
  comment_user_id :: objectId

text \<open>The two collections of the document store.\<close>

record db =
  videos :: "objectId \<rightharpoonup> video"
  comments :: "objectId \<rightharpoonup> comment"

text \<open>
  What a handler reads of a request: the Authorization header, the path parameter
  (\<^verbatim>\<open>req.params.id\<close>, \<^verbatim>\<open>req.params.commentId\<close>), the body fields, and for an uploaded
  thumbnail the pair \<^verbatim>\<open>(secure_url, public_id)\<close> that the media provider answers with.
  A body field that is absent is \<open>None\<close>.
\<close>

record request =
  authorization :: "string option"
  params_id :: objectId
  body_videoId :: "objectId option"
  body_title :: "string option"
  body_description :: "string option"
  body_category :: "string option"
  body_tags :: "string option"
  body_commentText :: "string option"
  files_thumbnail :: "(string \<times> string) option"

text \<open>The JSON bodies the handlers answer with, and a response: status code and body.\<close>

datatype json =
    Error string
  | ErrorMessage string string
  | Message string
  | VideoJson video
  | MessageVideo string video
  | MessageComment string comment
  | Reaction string int int

record response =
  status :: nat
  body :: json

section \<open>JavaScript helpers\<close>

text \<open>
  \<^verbatim>\<open>s.split(sep)\<close> for a one-character separator: the pieces between the separators, so
  that the empty string gives one empty piece.
\<close>

fun js_split :: "char \<Rightarrow> string \<Rightarrow> string list" where
  "js_split sep [] = [[]]"
| "js_split sep (c # cs) =
     (if c = sep then [] # js_split sep cs
      else (case js_split sep cs of
              [] \<Rightarrow> [[c]]
            | p # ps \<Rightarrow> (c # p) # ps))"

text \<open>Truthiness of an optional string: \<^verbatim>\<open>undefined\<close> and the empty string are falsy.\<close>

definition truthy :: "string option \<Rightarrow> bool" where
  "truthy x = (case x of None \<Rightarrow> False | Some s \<Rightarrow> s \<noteq> [])"

text \<open>\<^verbatim>\<open>x || y\<close> on strings.\<close>

definition or_else :: "string option \<Rightarrow> string \<Rightarrow> string" where
  "or_else x y = (case x of None \<Rightarrow> y | Some s \<Rightarrow> if s \<noteq> [] then s else y)"

text \<open>
  MongoDB's \<^verbatim>\<open>$addToSet\<close> on an array field: the value is appended unless the array
  already holds it.
\<close>

definition addToSet :: "'a list \<Rightarrow> 'a \<Rightarrow> 'a list" where
  "addToSet xs x = (if x \<in> set xs then xs else xs @ [x])"

section \<open>The authentication middleware\<close>

text \<open>
  \<^verbatim>\<open>req.headers.authorization?.split(" ")[1]\<close>: the second piece of the header, or
  \<^verbatim>\<open>undefined\<close> when the header is absent or has no second piece.
\<close>

definition token :: "request \<Rightarrow> string option" where
  "token req =
     (case authorization req of
        None \<Rightarrow> None
      | Some h \<Rightarrow>
          (let parts = js_split (CHR '' '') h
           in if 1 < length parts then Some (parts ! 1) else None))"

text \<open>
  \<^verbatim>\<open>checkAuth\<close>. The verifier \<^verbatim>\<open>jwt.verify(token, secret)\<close> belongs to a library: it
  is a parameter that either throws (\<open>Inl\<close> the error's message) or returns the decoded
  user. The result is the response sent without calling \<^verbatim>\<open>next\<close>, or the user attached
  to the request for the handler that follows.
\<close>

definition checkAuth :: "(string \<Rightarrow> string + jwtUser) \<Rightarrow> request \<Rightarrow> response + jwtUser" where
  "checkAuth verify req =
     (if \<not> truthy (token req)
      then Inl \<lparr>status = 401, body = Error ''No Token Is Provided''\<rparr>
      else (case verify (the (token req)) of
              Inl msg \<Rightarrow> Inl \<lparr>status = 500, body = ErrorMessage ''something is wrong in auth'' msg\<rparr>
            | Inr decodedUser \<Rightarrow> Inr decodedUser))"

text \<open>A route \<^verbatim>\<open>router.METHOD(path, checkAuth, handler)\<close>.\<close>

definition route ::
  "(string \<Rightarrow> string + jwtUser) \<Rightarrow> (db \<Rightarrow> jwtUser \<Rightarrow> request \<Rightarrow> response \<times> db)
     \<Rightarrow> db \<Rightarrow> request \<Rightarrow> response \<times> db" where
  "route verify handler d req =
     (case checkAuth verify req of
        Inl res \<Rightarrow> (res, d)
      | Inr u \<Rightarrow> handler d u req)"

section \<open>Video routes\<close>

text \<open>
  The handlers below follow \<^verbatim>\<open>routes/video.routes.js\<close>. The document store and the media
  provider are taken to answer: the \<^verbatim>\<open>catch\<close> branches, reached only when one of them
  throws, are not part of the model. The media provider's own state (uploaded and destroyed
  objects) is outside the persisted state.
\<close>

text \<open>The two counter updates of \<^verbatim>\<open>POST /like\<close> and \<^verbatim>\<open>POST /dislike\<close>.\<close>

definition like_update :: "video \<Rightarrow> video" where
  "like_update v =
     (let v1 = v\<lparr>likes := likes v + 1\<rparr>
      in if dislikes v1 > 0 then v1\<lparr>dislikes := dislikes v1 - 1\<rparr> else v1)"

definition dislike_update :: "video \<Rightarrow> video" where
  "dislike_update v =
     (let v1 = v\<lparr>dislikes := dislikes v + 1\<rparr>
      in if likes v1 > 0 then v1\<lparr>likes := likes v1 - 1\<rparr> else v1)"

text \<open>\<^verbatim>\<open>Video.findById(videoId)\<close> with the identifier read from the body.\<close>

definition findVideo :: "db \<Rightarrow> objectId option \<Rightarrow> video option" where
  "findVideo d i = (case i of None \<Rightarrow> None | Some k \<Rightarrow> videos d k)"

definition saveVideo :: "db \<Rightarrow> objectId \<Rightarrow> video \<Rightarrow> db" where
  "saveVideo d k v = d\<lparr>videos := (videos d)(k \<mapsto> v)\<rparr>"

definition post_like :: "db \<Rightarrow> jwtUser \<Rightarrow> request \<Rightarrow> response \<times> db" where
  "post_like d u req =
     (case findVideo d (body_videoId req) of
        None \<Rightarrow> (\<lparr>status = 404, body = Error ''Video not found''\<rparr>, d)
      | Some v \<Rightarrow>
          (let v' = like_update v
           in (\<lparr>status = 200, body = Reaction ''Video liked'' (likes v') (dislikes v')\<rparr>,
               saveVideo d (the (body_videoId req)) v')))"

definition post_dislike :: "db \<Rightarrow> jwtUser \<Rightarrow> request \<Rightarrow> response \<times> db" where
  "post_dislike d u req =
     (case findVideo d (body_videoId req) of
        None \<Rightarrow> (\<lparr>status = 404, body = Error ''Video not found''\<rparr>, d)
      | Some v \<Rightarrow>
          (let v' = dislike_update v
           in (\<lparr>status = 200, body = Reaction ''Video disliked'' (likes v') (dislikes v')\<rparr>,
               saveVideo d (the (body_videoId req)) v')))"

text \<open>\<^verbatim>\<open>GET /:id\<close>: one \<^verbatim>\<open>findByIdAndUpdate\<close> with \<^verbatim>\<open>$addToSet\<close> on \<^verbatim>\<open>viewedBy\<close>.\<close>

definition get_video :: "db \<Rightarrow> jwtUser \<Rightarrow> request \<Rightarrow> response \<times> db" where
  "get_video d u req =
     (case videos d (params_id req) of
        None \<Rightarrow> (\<lparr>status = 404, body = Error ''Video not found''\<rparr>, d)
      | Some v \<Rightarrow>
          (let v' = v\<lparr>viewedBy := addToSet (viewedBy v) (jwt_id u)\<rparr>
           in (\<lparr>status = 200, body = VideoJson v'\<rparr>, saveVideo d (params_id req) v')))"

text \<open>\<^verbatim>\<open>PUT /update/:id\<close>.\<close>

definition update_fields :: "request \<Rightarrow> video \<Rightarrow> video" where
  "update_fields req v =
     (let v1 = (case files_thumbnail req of
                  None \<Rightarrow> v
                | Some (secure_url, public_id) \<Rightarrow>
                    v\<lparr>thumbnailUrl := secure_url, thumbnailId := public_id\<rparr>)
      in v1\<lparr>title := or_else (body_title req) (title v1),
            description := or_else (body_description req) (description v1),
            category := or_else (body_category req) (category v1),
            tags := (if truthy (body_tags req)
                     then js_split (CHR '','') (the (body_tags req))
                     else tags v1)\<rparr>)"

definition put_update :: "db \<Rightarrow> jwtUser \<Rightarrow> request \<Rightarrow> response \<times> db" where
  "put_update d u req =
     (case videos d (params_id req) of
        None \<Rightarrow> (\<lparr>status = 404, body = Error ''Video not found''\<rparr>, d)
      | Some v \<Rightarrow>
          if user_id v \<noteq> jwt_id u
          then (\<lparr>status = 403, body = Error ''Unauthorized''\<rparr>, d)
          else (let v' = update_fields req v
                in (\<lparr>status = 200, body = MessageVideo ''Video updated successfully'' v'\<rparr>,
                    saveVideo d (params_id req) v')))"

text \<open>\<^verbatim>\<open>DELETE /delete/:id\<close>.\<close>

definition delete_video :: "db \<Rightarrow> jwtUser \<Rightarrow> request \<Rightarrow> response \<times> db" where
  "delete_video d u req =
     (case videos d (params_id req) of
        None \<Rightarrow> (\<lparr>status = 404, body = Error ''Video not found''\<rparr>, d)
      | Some v \<Rightarrow>
          if user_id v \<noteq> jwt_id u
          then (\<lparr>status = 403, body = Error ''Unauthorized''\<rparr>, d)
          else (\<lparr>status = 200, body = Message ''Video deleted successfully''\<rparr>,
                d\<lparr>videos := (videos d)(params_id req := None)\<rparr>))"

section \<open>Comment routes\<close>

text \<open>\<^verbatim>\<open>DELETE /:commentId\<close>.\<close>

definition delete_comment :: "db \<Rightarrow> jwtUser \<Rightarrow> request \<Rightarrow> response \<times> db" where
  "delete_comment d u req =
     (case comments d (params_id req) of
        None \<Rightarrow> (\<lparr>status = 404, body = Error ''Comment not found''\<rparr>, d)
      | Some c \<Rightarrow>
          if comment_user_id c \<noteq> jwt_id u
          then (\<lparr>status = 403, body = Error ''Unauthorized to delete this comment''\<rparr>, d)
          else (\<lparr>status = 200, body = Message ''Comment Deleted Successfully''\<rparr>,
                d\<lparr>comments := (comments d)(params_id req := None)\<rparr>))"

text \<open>\<^verbatim>\<open>PUT /:commentId\<close>.\<close>

definition put_comment :: "db \<Rightarrow> jwtUser \<Rightarrow> request \<Rightarrow> response \<times> db" where
  "put_comment d u req =
     (case comments d (params_id req) of
        None \<Rightarrow> (\<lparr>status = 401, body = Error ''Comment not found''\<rparr>, d)
      | Some c \<Rightarrow>
          if comment_user_id c \<noteq> jwt_id u
          then (\<lparr>status = 403, body = Error ''Unauthorized to delete this comment''\<rparr>, d)
          else (let c' = c\<lparr>commentText := body_commentText req\<rparr>
                in (\<lparr>status = 200, body = MessageComment ''Comment updated successfully'' c'\<rparr>,
                    d\<lparr>comments := (comments d)(params_id req \<mapsto> c')\<rparr>)))"


section \<open>Sequences of requests\<close>

text \<open>
  The two reactions a caller can ask for. \<^verbatim>\<open>recordReaction\<close> is served by two endpoints:
  \<^verbatim>\<open>POST /like\<close> for \<open>Liked\<close> and \<^verbatim>\<open>POST /dislike\<close> for \<open>Disliked\<close>.
\<close>

datatype desired = Liked | Disliked

definition recordReaction :: "db \<Rightarrow> jwtUser \<Rightarrow> request \<Rightarrow> desired \<Rightarrow> response \<times> db" where
  "recordReaction d u req r =
     (case r of Liked \<Rightarrow> post_like d u req | Disliked \<Rightarrow> post_dislike d u req)"

text \<open>A sequence of reaction calls, each by its own caller; the store is threaded through.\<close>

fun run_reactions :: "db \<Rightarrow> request \<Rightarrow> (jwtUser \<times> desired) list \<Rightarrow> db" where
  "run_reactions d req [] = d"
| "run_reactions d req ((u, r) # cs) = run_reactions (snd (recordReaction d u req r)) req cs"

text \<open>The authenticated endpoints that act on a video or a comment, and a server step.\<close>

datatype endpoint =
  GetVideo | PostLike | PostDislike | PutUpdate | DeleteVideo | PutComment | DeleteComment

fun handler_of :: "endpoint \<Rightarrow> db \<Rightarrow> jwtUser \<Rightarrow> request \<Rightarrow> response \<times> db" where
  "handler_of GetVideo = get_video"
| "handler_of PostLike = post_like"
| "handler_of PostDislike = post_dislike"
| "handler_of PutUpdate = put_update"
| "handler_of DeleteVideo = delete_video"
| "handler_of PutComment = put_comment"
| "handler_of DeleteComment = delete_comment"

definition serve ::
  "(string \<Rightarrow> string + jwtUser) \<Rightarrow> db \<Rightarrow> endpoint \<times> request \<Rightarrow> response \<times> db" where
  "serve verify d call = route verify (handler_of (fst call)) d (snd call)"

fun serve_all :: "(string \<Rightarrow> string + jwtUser) \<Rightarrow> db \<Rightarrow> (endpoint \<times> request) list \<Rightarrow> db" where
  "serve_all verify d [] = d"
| "serve_all verify d (call # calls) = serve_all verify (snd (serve verify d call)) calls"

section \<open>The reaction map of the specification\<close>

text \<open>
  The code keeps no record of who reacted. The specification's \<^verbatim>\<open>reactionsByUser\<close> is
  defined here from its transition table, to compare the counters with: the state of a user
  is \<open>None\<close>, \<open>Some Liked\<close> or \<open>Some Disliked\<close>, and a call moves the caller's state.
\<close>

fun spec_transition :: "desired option \<Rightarrow> desired \<Rightarrow> desired option" where
  "spec_transition None Liked = Some Liked"
| "spec_transition None Disliked = Some Disliked"
| "spec_transition (Some Liked) Liked = Some Liked"
| "spec_transition (Some Liked) Disliked = Some Disliked"
| "spec_transition (Some Disliked) Liked = Some Liked"
| "spec_transition (Some Disliked) Disliked = Some Disliked"

fun spec_reactionsByUser ::
  "(objectId \<Rightarrow> desired option) \<Rightarrow> (jwtUser \<times> desired) list \<Rightarrow> objectId \<Rightarrow> desired option" where
  "spec_reactionsByUser m [] = m"
| "spec_reactionsByUser m ((u, r) # cs) =
     spec_reactionsByUser (m(jwt_id u := spec_transition (m (jwt_id u)) r)) cs"

text \<open>The users whose current reaction is \<open>r\<close>.\<close>

definition reactors :: "(objectId \<Rightarrow> desired option) \<Rightarrow> desired \<Rightarrow> objectId set" where
  "reactors m r = {x. m x = Some r}"

fun opposite :: "desired \<Rightarrow> desired" where
  "opposite Liked = Disliked"
| "opposite Disliked = Liked"

text \<open>
  The sequences on which the counters of the code follow the reaction map: every call
  either reverses its caller's current reaction, or is the first reaction of its caller, made
  while no user holds the opposite reaction.
\<close>

fun reversing :: "(objectId \<Rightarrow> desired option) \<Rightarrow> (jwtUser \<times> desired) list \<Rightarrow> bool" where
  "reversing m [] = True"
| "reversing m ((u, r) # cs) =
     ((m (jwt_id u) = Some (opposite r)
        \<or> (m (jwt_id u) = None \<and> reactors m (opposite r) = {}))
      \<and> reversing (m(jwt_id u := spec_transition (m (jwt_id u)) r)) cs)"

text \<open>The counters of a stored video, as the two reaction endpoints report them.\<close>

definition counters :: "db \<Rightarrow> objectId \<Rightarrow> (int \<times> int) option" where
  "counters d k = (case videos d k of None \<Rightarrow> None | Some v \<Rightarrow> Some (likes v, dislikes v))"

section \<open>Sample data\<close>

text \<open>Two users, their tokens, a store with one video and one comment of the first user.\<close>

definition alice :: jwtUser where
  "alice = \<lparr>jwt_id = ''u-alice'', channelName = ''Alice'', email = ''alice@example.com'',
            phone = ''100'', logoId = ''logo-a''\<rparr>"

definition bob :: jwtUser where
  "bob = \<lparr>jwt_id = ''u-bob'', channelName = ''Bob'', email = ''bob@example.com'',
          phone = ''200'', logoId = ''logo-b''\<rparr>"

definition sample_verify :: "string \<Rightarrow> string + jwtUser" where
  "sample_verify t =
     (if t = ''token-alice'' then Inr alice
      else if t = ''token-bob'' then Inr bob
      else Inl ''jwt malformed'')"

definition sample_video :: video where
  "sample_video = \<lparr>title = ''First'', description = ''A video'', user_id = ''u-alice'',
     videoUrl = ''https://media/v.mp4'', videoId = ''videos/v'',
     thumbnailUrl = ''https://media/t.jpg'', thumbnailId = ''thumbnails/t'',
     category = ''Gaming'', tags = [''action''], likes = 0, dislikes = 0, viewedBy = []\<rparr>"

definition sample_comment :: comment where
  "sample_comment = \<lparr>video_id = ''v1'', commentText = Some ''Great video!'',
     comment_user_id = ''u-alice''\<rparr>"

definition sample_db :: db where
  "sample_db = \<lparr>videos = [''v1'' \<mapsto> sample_video], comments = [''c1'' \<mapsto> sample_comment]\<rparr>"

definition sample_request :: "string option \<Rightarrow> objectId \<Rightarrow> request" where
  "sample_request auth k = \<lparr>authorization = auth, params_id = k, body_videoId = Some k,
     body_title = None, body_description = None, body_category = None, body_tags = None,
     body_commentText = None, files_thumbnail = None\<rparr>"

section \<open>Reactions: the counters\<close>

lemma like_update_simps:
  "likes (like_update v) = likes v + 1"
  "dislikes (like_update v) = (if dislikes v > 0 then dislikes v - 1 else dislikes v)"
  by (simp_all add: like_update_def Let_def)

lemma like_update_frame:
  "like_update v = v\<lparr>likes := likes (like_update v), dislikes := dislikes (like_update v)\<rparr>"
  by (simp add: like_update_def Let_def)

lemma dislike_update_simps:
  "dislikes (dislike_update v) = dislikes v + 1"
  "likes (dislike_update v) = (if likes v > 0 then likes v - 1 else likes v)"
  by (simp_all add: dislike_update_def Let_def)

lemma dislike_update_frame:
  "dislike_update v =
     v\<lparr>likes := likes (dislike_update v), dislikes := dislikes (dislike_update v)\<rparr>"
  by (simp add: dislike_update_def Let_def)

lemma post_like_found:
  assumes "videos d k = Some v" and "body_videoId req = Some k"
  shows "post_like d u req =
    (\<lparr>status = 200, body = Reaction ''Video liked'' (likes (like_update v)) (dislikes (like_update v))\<rparr>,
     d\<lparr>videos := (videos d)(k \<mapsto> like_update v)\<rparr>)"
  using assms by (simp add: post_like_def findVideo_def saveVideo_def Let_def)

lemma post_dislike_found:
  assumes "videos d k = Some v" and "body_videoId req = Some k"
  shows "post_dislike d u req =
    (\<lparr>status = 200, body = Reaction ''Video disliked'' (likes (dislike_update v)) (dislikes (dislike_update v))\<rparr>,
     d\<lparr>videos := (videos d)(k \<mapsto> dislike_update v)\<rparr>)"
  using assms by (simp add: post_dislike_def findVideo_def saveVideo_def Let_def)

lemma post_like_missing:
  "findVideo d (body_videoId req) = None \<Longrightarrow>
   post_like d u req = (\<lparr>status = 404, body = Error ''Video not found''\<rparr>, d)"
  by (simp add: post_like_def)

lemma post_dislike_missing:
  "findVideo d (body_videoId req) = None \<Longrightarrow>
   post_dislike d u req = (\<lparr>status = 404, body = Error ''Video not found''\<rparr>, d)"
  by (simp add: post_dislike_def)

lemma recordReaction_found:
  assumes "videos d k = Some v" and "body_videoId req = Some k"
  shows "snd (recordReaction d u req r) =
     d\<lparr>videos := (videos d)(k \<mapsto> (case r of Liked \<Rightarrow> like_update v | Disliked \<Rightarrow> dislike_update v))\<rparr>"
  using assms
  by (cases r) (simp_all add: recordReaction_def post_like_found [of d k v]
      post_dislike_found [of d k v])

text \<open>Along a sequence of calls on the video \<open>k\<close>, only the document \<open>k\<close> moves.\<close>

lemma run_reactions_video:
  assumes "body_videoId req = Some k" and "videos d k = Some v"
  shows "videos (run_reactions d req cs) k =
     Some (foldl (\<lambda>w c. case snd c of Liked \<Rightarrow> like_update w | Disliked \<Rightarrow> dislike_update w) v cs)"
  using assms(2)
proof (induction cs arbitrary: d v)
  case Nil
  then show ?case by simp
next
  case (Cons c cs)
  obtain u r where c: "c = (u, r)" by (cases c)
  let ?w = "case r of Liked \<Rightarrow> like_update v | Disliked \<Rightarrow> dislike_update v"
  have step: "snd (recordReaction d u req r) = d\<lparr>videos := (videos d)(k \<mapsto> ?w)\<rparr>"
    using recordReaction_found [OF Cons.prems assms(1)] .
  have "videos (d\<lparr>videos := (videos d)(k \<mapsto> ?w)\<rparr>) k = Some ?w" by simp
  from Cons.IH [OF this] show ?case by (simp add: c step)
qed

text \<open>
  C5. From a video with \<open>likes = 0\<close> and \<open>dislikes = 0\<close>, the calls (A likes, A dislikes,
  A likes, B likes) leave the counters \<open>(likes, dislikes)\<close> at (1,0), then (0,1), then (1,0),
  then (2,0).
\<close>

theorem scenario_like_dislike_like_like:
  assumes "videos d k = Some v" and "likes v = 0" and "dislikes v = 0"
    and "body_videoId req = Some k"
  shows "\<exists>v1 v2 v3 v4.
     videos (run_reactions d req [(A, Liked)]) k = Some v1
   \<and> (likes v1, dislikes v1) = (1, 0)
   \<and> videos (run_reactions d req [(A, Liked), (A, Disliked)]) k = Some v2
   \<and> (likes v2, dislikes v2) = (0, 1)
   \<and> videos (run_reactions d req [(A, Liked), (A, Disliked), (A, Liked)]) k = Some v3
   \<and> (likes v3, dislikes v3) = (1, 0)
   \<and> videos (run_reactions d req [(A, Liked), (A, Disliked), (A, Liked), (B, Liked)]) k = Some v4
   \<and> (likes v4, dislikes v4) = (2, 0)"
proof -
  note run = run_reactions_video [OF assms(4) assms(1)]
  let ?v1 = "like_update v"
  let ?v2 = "dislike_update ?v1"
  let ?v3 = "like_update ?v2"
  let ?v4 = "like_update ?v3"
  have c1: "(likes ?v1, dislikes ?v1) = (1, 0)"
    using assms(2,3) by (simp add: like_update_simps)
  have c2: "(likes ?v2, dislikes ?v2) = (0, 1)"
    using c1 by (simp add: dislike_update_simps)
  have c3: "(likes ?v3, dislikes ?v3) = (1, 0)"
    using c2 by (simp add: like_update_simps)
  have c4: "(likes ?v4, dislikes ?v4) = (2, 0)"
    using c3 by (simp add: like_update_simps)
  have r1: "videos (run_reactions d req [(A, Liked)]) k = Some ?v1"
    unfolding run by simp
  have r2: "videos (run_reactions d req [(A, Liked), (A, Disliked)]) k = Some ?v2"
    unfolding run by simp
  have r3: "videos (run_reactions d req [(A, Liked), (A, Disliked), (A, Liked)]) k = Some ?v3"
    unfolding run by simp
  have r4: "videos (run_reactions d req [(A, Liked), (A, Disliked), (A, Liked), (B, Liked)]) k
              = Some ?v4"
    unfolding run by simp
  from r1 c1 r2 c2 r3 c3 r4 c4 show ?thesis by blast
qed

theorem scenario_like_dislike_like_like_witness:
  "videos sample_db ''v1'' = Some sample_video \<and> likes sample_video = 0
   \<and> dislikes sample_video = 0
   \<and> body_videoId (sample_request None ''v1'') = Some ''v1''
   \<and> counters (run_reactions sample_db (sample_request None ''v1'')
        [(alice, Liked), (alice, Disliked), (alice, Liked), (bob, Liked)]) ''v1'' = Some (2, 0)"
proof -
  have h: "videos sample_db ''v1'' = Some sample_video" "likes sample_video = 0"
    "dislikes sample_video = 0" "body_videoId (sample_request None ''v1'') = Some ''v1''"
    by (simp_all add: sample_db_def sample_video_def sample_request_def)
  from scenario_like_dislike_like_like [OF h, of alice bob] h show ?thesis
    by (auto simp: counters_def)
qed

text \<open>
  C1, as stated, fails: a second \<^verbatim>\<open>POST /like\<close> by the same user on the same video adds
  one to \<open>likes\<close> again.
\<close>

theorem like_twice_counterexample:
  "counters (run_reactions sample_db (sample_request None ''v1'') [(alice, Liked)]) ''v1''
     = Some (1, 0)
   \<and> counters (run_reactions sample_db (sample_request None ''v1'')
        [(alice, Liked), (alice, Liked)]) ''v1'' = Some (2, 0)"
proof -
  have h: "body_videoId (sample_request None ''v1'') = Some ''v1''"
    "videos sample_db ''v1'' = Some sample_video"
    by (simp_all add: sample_db_def sample_request_def)
  show ?thesis
    unfolding counters_def run_reactions_video [OF h]
    by (simp add: like_update_simps sample_video_def)
qed

text \<open>
  C1, amended. Take an existing video whose counters are not negative and stay below
  \<open>2 ^ 53\<close> before each of the two calls (\<open>likes + 1 < 2 ^ 53\<close> and
  \<open>dislikes < 2 ^ 53\<close>), the range in which adding 1 to a JavaScript Number is exact. Two
  calls of \<^verbatim>\<open>POST /like\<close> in immediate succession, by any callers, add 2 to \<open>likes\<close>
  where one call adds 1, and lower \<open>dislikes\<close> by up to 2 where one call lowers it by up
  to 1, never below 0: the second call counts again.
\<close>

theorem like_twice_counts:
  assumes "videos d k = Some v" and "body_videoId req = Some k"
    and "0 \<le> likes v" and "likes v + 1 < 2 ^ 53"
    and "0 \<le> dislikes v" and "dislikes v < 2 ^ 53"
  shows "counters (run_reactions d req [(u, Liked)]) k
           = Some (likes v + 1, max 0 (dislikes v - 1))
       \<and> counters (run_reactions d req [(u, Liked), (u', Liked)]) k
           = Some (likes v + 2, max 0 (dislikes v - 2))"
  using assms(5)
  unfolding counters_def run_reactions_video [OF assms(2,1)]
  by (simp add: like_update_simps)

theorem like_twice_counts_witness:
  "videos sample_db ''v1'' = Some sample_video
   \<and> body_videoId (sample_request None ''v1'') = Some ''v1''
   \<and> 0 \<le> likes sample_video \<and> likes sample_video + 1 < 2 ^ 53
   \<and> 0 \<le> dislikes sample_video \<and> dislikes sample_video < 2 ^ 53
   \<and> counters (run_reactions sample_db (sample_request None ''v1'')
        [(alice, Liked), (alice, Liked)]) ''v1'' = Some (2, 0)"
proof -
  have h: "videos sample_db ''v1'' = Some sample_video"
    "body_videoId (sample_request None ''v1'') = Some ''v1''"
    "0 \<le> likes sample_video" "likes sample_video + 1 < 2 ^ 53"
    "0 \<le> dislikes sample_video" "dislikes sample_video < 2 ^ 53"
    by (simp_all add: sample_db_def sample_video_def sample_request_def)
  from like_twice_counts [OF h, of alice alice] h show ?thesis
    by (simp add: sample_video_def)
qed

text \<open>
  C8. A video whose counters are not negative keeps them so through any like or dislike
  request, whichever video the request names; a counter goes down only from a value above 0.
\<close>

theorem counters_stay_nonnegative:
  assumes "videos d k = Some v" and "0 \<le> likes v" and "0 \<le> dislikes v"
  shows "\<exists>v'. videos (snd (recordReaction d u req r)) k = Some v'
     \<and> 0 \<le> likes v' \<and> 0 \<le> dislikes v'
     \<and> (likes v' < likes v \<longrightarrow> 0 < likes v)
     \<and> (dislikes v' < dislikes v \<longrightarrow> 0 < dislikes v)"
proof (cases "findVideo d (body_videoId req)")
  case None
  then have "snd (recordReaction d u req r) = d"
    by (cases r) (simp_all add: recordReaction_def post_like_missing post_dislike_missing)
  with assms show ?thesis by simp
next
  case (Some w)
  then obtain j where j: "body_videoId req = Some j" "videos d j = Some w"
    by (cases "body_videoId req") (simp_all add: findVideo_def)
  let ?w = "case r of Liked \<Rightarrow> like_update w | Disliked \<Rightarrow> dislike_update w"
  have step: "snd (recordReaction d u req r) = d\<lparr>videos := (videos d)(j \<mapsto> ?w)\<rparr>"
    by (rule recordReaction_found [OF j(2) j(1)])
  show ?thesis
  proof (cases "j = k")
    case True
    with j assms(1) have w: "w = v" by simp
    have found: "videos (snd (recordReaction d u req r)) k = Some ?w"
      by (simp add: step True)
    have "0 \<le> likes ?w \<and> 0 \<le> dislikes ?w
        \<and> (likes ?w < likes v \<longrightarrow> 0 < likes v)
        \<and> (dislikes ?w < dislikes v \<longrightarrow> 0 < dislikes v)"
      using assms(2,3) unfolding w
      by (cases r) (simp_all add: like_update_simps dislike_update_simps)
    with found show ?thesis by blast
  next
    case False
    then have "videos (snd (recordReaction d u req r)) k = Some v"
      by (simp add: step assms(1))
    with assms(2,3) show ?thesis by simp
  qed
qed

theorem counters_stay_nonnegative_witness:
  "videos sample_db ''v1'' = Some sample_video \<and> 0 \<le> likes sample_video
   \<and> 0 \<le> dislikes sample_video
   \<and> (\<exists>v'. videos (snd (recordReaction sample_db alice (sample_request None ''v1'') Disliked))
              ''v1'' = Some v'
        \<and> 0 \<le> likes v' \<and> 0 \<le> dislikes v'
        \<and> (likes v' < likes sample_video \<longrightarrow> 0 < likes sample_video)
        \<and> (dislikes v' < dislikes sample_video \<longrightarrow> 0 < dislikes sample_video))"
proof -
  have h: "videos sample_db ''v1'' = Some sample_video" "0 \<le> likes sample_video"
    "0 \<le> dislikes sample_video"
    by (simp_all add: sample_db_def sample_video_def)
  from counters_stay_nonnegative [OF h] h show ?thesis by blast
qed

text \<open>
  C9. A like or dislike request that finds its video answers 200 and leaves the store as it
  was but for the fields \<open>likes\<close> and \<open>dislikes\<close> of that video: every other field of the
  video, every other video and every comment is unchanged.
\<close>

theorem reaction_changes_counters_only:
  assumes "videos d k = Some v" and "body_videoId req = Some k"
  shows "\<exists>l m. recordReaction d u req r =
     (\<lparr>status = 200,
       body = Reaction (case r of Liked \<Rightarrow> ''Video liked'' | Disliked \<Rightarrow> ''Video disliked'') l m\<rparr>,
      d\<lparr>videos := (videos d)(k \<mapsto> v\<lparr>likes := l, dislikes := m\<rparr>)\<rparr>)"
proof (cases r)
  case Liked
  have "recordReaction d u req r =
      (\<lparr>status = 200, body = Reaction ''Video liked'' (likes (like_update v)) (dislikes (like_update v))\<rparr>,
       d\<lparr>videos := (videos d)(k \<mapsto> v\<lparr>likes := likes (like_update v),
          dislikes := dislikes (like_update v)\<rparr>)\<rparr>)"
    unfolding Liked recordReaction_def desired.case post_like_found [OF assms]
    using like_update_frame [of v] by simp
  then show ?thesis unfolding Liked desired.case by blast
next
  case Disliked
  have "recordReaction d u req r =
      (\<lparr>status = 200,
        body = Reaction ''Video disliked'' (likes (dislike_update v)) (dislikes (dislike_update v))\<rparr>,
       d\<lparr>videos := (videos d)(k \<mapsto> v\<lparr>likes := likes (dislike_update v),
          dislikes := dislikes (dislike_update v)\<rparr>)\<rparr>)"
    unfolding Disliked recordReaction_def desired.case post_dislike_found [OF assms]
    using dislike_update_frame [of v] by simp
  then show ?thesis unfolding Disliked desired.case by blast
qed

theorem reaction_changes_counters_only_witness:
  "videos sample_db ''v1'' = Some sample_video
   \<and> body_videoId (sample_request None ''v1'') = Some ''v1''
   \<and> (\<exists>l m. recordReaction sample_db bob (sample_request None ''v1'') Liked =
        (\<lparr>status = 200, body = Reaction ''Video liked'' l m\<rparr>,
         sample_db\<lparr>videos := (videos sample_db)
            (''v1'' \<mapsto> sample_video\<lparr>likes := l, dislikes := m\<rparr>)\<rparr>))"
proof -
  have h: "videos sample_db ''v1'' = Some sample_video"
    "body_videoId (sample_request None ''v1'') = Some ''v1''"
    by (simp_all add: sample_db_def sample_request_def)
  from reaction_changes_counters_only [OF h, of bob Liked] h show ?thesis by simp
qed

section \<open>Views\<close>

lemma addToSet_again: "addToSet (addToSet xs x) x = addToSet xs x"
  by (simp add: addToSet_def)

lemma set_addToSet: "set (addToSet xs x) = insert x (set xs)"
  by (auto simp: addToSet_def)

text \<open>
  C6. A second \<^verbatim>\<open>GET /:id\<close> by the same user gives the answer and the store of the first:
  the user is in \<open>viewedBy\<close> once.
\<close>

theorem view_twice_is_view_once:
  "get_video (snd (get_video d u req)) u req = get_video d u req"
  by (cases "videos d (params_id req)")
    (simp_all add: get_video_def saveVideo_def Let_def addToSet_again)

theorem view_twice_is_view_once_witness:
  "map_option viewedBy (videos (snd (get_video (snd (get_video sample_db bob
       (sample_request None ''v1''))) bob (sample_request None ''v1''))) ''v1'')
     = Some [''u-bob'']"
  unfolding view_twice_is_view_once [of sample_db bob "sample_request None ''v1''"]
  by (simp add: get_video_def sample_db_def sample_request_def sample_video_def bob_def
      saveVideo_def addToSet_def Let_def)

text \<open>
  No handler but \<^verbatim>\<open>DELETE /delete/:id\<close> takes a member out of \<open>viewedBy\<close>, or a video
  out of the store: one lemma for each.
\<close>

lemma get_video_keeps_views:
  assumes "videos d k = Some v"
  shows "\<exists>v'. videos (snd (get_video d u req)) k = Some v' \<and> set (viewedBy v) \<subseteq> set (viewedBy v')"
  using assms
  by (cases "videos d (params_id req)")
    (auto simp: get_video_def saveVideo_def Let_def set_addToSet)

lemma post_like_keeps_views:
  assumes "videos d k = Some v"
  shows "\<exists>v'. videos (snd (post_like d u req)) k = Some v' \<and> set (viewedBy v) \<subseteq> set (viewedBy v')"
proof (cases "findVideo d (body_videoId req)")
  case None
  with assms show ?thesis by (simp add: post_like_missing)
next
  case (Some w)
  then obtain j where j: "body_videoId req = Some j" "videos d j = Some w"
    by (cases "body_videoId req") (simp_all add: findVideo_def)
  have "viewedBy (like_update w) = viewedBy w"
    by (simp add: like_update_def Let_def)
  with assms j show ?thesis
    by (cases "j = k") (simp_all add: post_like_found [OF j(2) j(1)])
qed

lemma post_dislike_keeps_views:
  assumes "videos d k = Some v"
  shows "\<exists>v'. videos (snd (post_dislike d u req)) k = Some v' \<and> set (viewedBy v) \<subseteq> set (viewedBy v')"
proof (cases "findVideo d (body_videoId req)")
  case None
  with assms show ?thesis by (simp add: post_dislike_missing)
next
  case (Some w)
  then obtain j where j: "body_videoId req = Some j" "videos d j = Some w"
    by (cases "body_videoId req") (simp_all add: findVideo_def)
  have "viewedBy (dislike_update w) = viewedBy w"
    by (simp add: dislike_update_def Let_def)
  with assms j show ?thesis
    by (cases "j = k") (simp_all add: post_dislike_found [OF j(2) j(1)])
qed

lemma viewedBy_update_fields: "viewedBy (update_fields req w) = viewedBy w"
  by (cases "files_thumbnail req") (auto simp: update_fields_def Let_def)

lemma put_update_keeps_views:
  assumes "videos d k = Some v"
  shows "\<exists>v'. videos (snd (put_update d u req)) k = Some v' \<and> set (viewedBy v) \<subseteq> set (viewedBy v')"
  using assms
  by (cases "videos d (params_id req)")
    (auto simp: put_update_def saveVideo_def Let_def viewedBy_update_fields)

lemma put_comment_keeps_videos: "videos (snd (put_comment d u req)) = videos d"
  by (cases "comments d (params_id req)") (simp_all add: put_comment_def Let_def)

lemma delete_comment_keeps_videos: "videos (snd (delete_comment d u req)) = videos d"
  by (cases "comments d (params_id req)") (simp_all add: delete_comment_def)

lemma handler_keeps_views:
  assumes "videos d k = Some v" and "e \<noteq> DeleteVideo"
  shows "\<exists>v'. videos (snd (handler_of e d u req)) k = Some v'
     \<and> set (viewedBy v) \<subseteq> set (viewedBy v')"
proof (cases e)
  case GetVideo
  then show ?thesis using get_video_keeps_views [OF assms(1)] by simp
next
  case PostLike
  then show ?thesis using post_like_keeps_views [OF assms(1)] by simp
next
  case PostDislike
  then show ?thesis using post_dislike_keeps_views [OF assms(1)] by simp
next
  case PutUpdate
  then show ?thesis using put_update_keeps_views [OF assms(1)] by simp
next
  case DeleteVideo
  with assms(2) show ?thesis by simp
next
  case PutComment
  then show ?thesis using assms(1) by (simp add: put_comment_keeps_videos)
next
  case DeleteComment
  then show ?thesis using assms(1) by (simp add: delete_comment_keeps_videos)
qed

lemma serve_keeps_views:
  assumes "videos d k = Some v" and "fst call \<noteq> DeleteVideo"
  shows "\<exists>v'. videos (snd (serve verify d call)) k = Some v'
     \<and> set (viewedBy v) \<subseteq> set (viewedBy v')"
proof (cases "checkAuth verify (snd call)")
  case (Inl res)
  with assms(1) show ?thesis by (simp add: serve_def route_def)
next
  case (Inr u)
  with handler_keeps_views [OF assms, of u "snd call"] show ?thesis
    by (simp add: serve_def route_def)
qed

text \<open>
  C7. Through any sequence of requests to the authenticated video and comment endpoints
  that holds no \<^verbatim>\<open>DELETE /delete/:id\<close> (views, likes, dislikes, metadata updates, comment
  edits and deletions, with or without a valid token), a stored video stays stored and its
  \<open>viewedBy\<close> afterwards holds every member it held before.
\<close>

theorem viewedBy_only_grows:
  assumes "videos d k = Some v" and "\<forall>call \<in> set calls. fst call \<noteq> DeleteVideo"
  shows "\<exists>v'. videos (serve_all verify d calls) k = Some v'
     \<and> set (viewedBy v) \<subseteq> set (viewedBy v')"
  using assms
proof (induction calls arbitrary: d v)
  case Nil
  then show ?case by simp
next
  case (Cons call calls)
  from Cons.prems have "fst call \<noteq> DeleteVideo" by simp
  from serve_keeps_views [OF Cons.prems(1) this, of verify]
  obtain w where w: "videos (snd (serve verify d call)) k = Some w"
    "set (viewedBy v) \<subseteq> set (viewedBy w)"
    by blast
  from Cons.prems have "\<forall>c \<in> set calls. fst c \<noteq> DeleteVideo" by simp
  from Cons.IH [OF w(1) this]
  obtain v' where "videos (serve_all verify (snd (serve verify d call)) calls) k = Some v'"
    "set (viewedBy w) \<subseteq> set (viewedBy v')"
    by blast
  with w(2) show ?case by auto
qed

theorem viewedBy_only_grows_witness:
  "videos sample_db ''v1'' = Some sample_video
   \<and> DeleteVideo \<notin> fst ` set [(GetVideo, sample_request (Some ''Bearer token-bob'') ''v1''),
                     (PostLike, sample_request (Some ''Bearer token-bob'') ''v1''),
                     (PutUpdate, sample_request (Some ''Bearer token-alice'') ''v1'')]
   \<and> (\<exists>v'. videos (serve_all sample_verify sample_db
                [(GetVideo, sample_request (Some ''Bearer token-bob'') ''v1''),
                 (PostLike, sample_request (Some ''Bearer token-bob'') ''v1''),
                 (PutUpdate, sample_request (Some ''Bearer token-alice'') ''v1'')]) ''v1''
              = Some v'
          \<and> set (viewedBy sample_video) \<subseteq> set (viewedBy v'))"
proof -
  let ?calls = "[(GetVideo, sample_request (Some ''Bearer token-bob'') ''v1''),
                 (PostLike, sample_request (Some ''Bearer token-bob'') ''v1''),
                 (PutUpdate, sample_request (Some ''Bearer token-alice'') ''v1'')]"
  have h1: "videos sample_db ''v1'' = Some sample_video"
    by (simp add: sample_db_def)
  have h2: "\<forall>call \<in> set ?calls. fst call \<noteq> DeleteVideo"
    by simp
  have h3: "DeleteVideo \<notin> fst ` set ?calls"
    by simp
  from viewedBy_only_grows [OF h1 h2, of sample_verify] h1 h3 show ?thesis
    by blast
qed

section \<open>Comments\<close>

text \<open>
  C10. When the author of a comment sends \<^verbatim>\<open>PUT /:commentId\<close> with a body that has no
  \<^verbatim>\<open>commentText\<close>, the handler answers 200 and stores the comment with its text
  replaced by the missing value: the text it had is lost.
\<close>

theorem comment_update_without_text:
  assumes "comments d (params_id req) = Some c" and "comment_user_id c = jwt_id u"
    and "body_commentText req = None"
  shows "put_comment d u req =
     (\<lparr>status = 200,
       body = MessageComment ''Comment updated successfully'' (c\<lparr>commentText := None\<rparr>)\<rparr>,
      d\<lparr>comments := (comments d)(params_id req \<mapsto> c\<lparr>commentText := None\<rparr>)\<rparr>)"
  using assms by (simp add: put_comment_def Let_def)

theorem comment_update_without_text_witness:
  "comments sample_db (params_id (sample_request None ''c1'')) = Some sample_comment
   \<and> comment_user_id sample_comment = jwt_id alice
   \<and> body_commentText (sample_request None ''c1'') = None
   \<and> commentText sample_comment = Some ''Great video!''
   \<and> map_option commentText
        (comments (snd (put_comment sample_db alice (sample_request None ''c1''))) ''c1'')
      = Some None"
proof -
  have h: "comments sample_db (params_id (sample_request None ''c1'')) = Some sample_comment"
    "comment_user_id sample_comment = jwt_id alice"
    "body_commentText (sample_request None ''c1'') = None"
    by (simp_all add: sample_db_def sample_request_def sample_comment_def alice_def)
  have p: "params_id (sample_request None ''c1'') = ''c1''"
    by (simp add: sample_request_def)
  from comment_update_without_text [OF h] h p show ?thesis
    by (simp add: sample_comment_def)
qed

section \<open>Ownership and authentication\<close>

text \<open>
  The owner check of the four mutating handlers. A caller who is not the stored owner is
  answered 403 and the store is untouched; a resource that is not stored is answered 404
  by three of them.
\<close>

lemma mutation_denied:
  "videos d (params_id req) = Some v \<Longrightarrow> user_id v \<noteq> jwt_id u \<Longrightarrow>
     put_update d u req = (\<lparr>status = 403, body = Error ''Unauthorized''\<rparr>, d)"
  "videos d (params_id req) = Some v \<Longrightarrow> user_id v \<noteq> jwt_id u \<Longrightarrow>
     delete_video d u req = (\<lparr>status = 403, body = Error ''Unauthorized''\<rparr>, d)"
  "comments d (params_id req) = Some c \<Longrightarrow> comment_user_id c \<noteq> jwt_id u \<Longrightarrow>
     put_comment d u req =
       (\<lparr>status = 403, body = Error ''Unauthorized to delete this comment''\<rparr>, d)"
  "comments d (params_id req) = Some c \<Longrightarrow> comment_user_id c \<noteq> jwt_id u \<Longrightarrow>
     delete_comment d u req =
       (\<lparr>status = 403, body = Error ''Unauthorized to delete this comment''\<rparr>, d)"
  by (simp_all add: put_update_def delete_video_def put_comment_def delete_comment_def)

lemma mutation_not_found:
  "videos d (params_id req) = None \<Longrightarrow>
     put_update d u req = (\<lparr>status = 404, body = Error ''Video not found''\<rparr>, d)"
  "videos d (params_id req) = None \<Longrightarrow>
     delete_video d u req = (\<lparr>status = 404, body = Error ''Video not found''\<rparr>, d)"
  "comments d (params_id req) = None \<Longrightarrow>
     delete_comment d u req = (\<lparr>status = 404, body = Error ''Comment not found''\<rparr>, d)"
  by (simp_all add: put_update_def delete_video_def delete_comment_def)

lemma sample_tokens:
  "checkAuth sample_verify (sample_request (Some ''Bearer token-alice'') k) = Inr alice"
  "checkAuth sample_verify (sample_request (Some ''Bearer token-bob'') k) = Inr bob"
  "checkAuth sample_verify (sample_request (Some ''Bearer forged'') k)
     = Inl \<lparr>status = 500, body = ErrorMessage ''something is wrong in auth'' ''jwt malformed''\<rparr>"
  "checkAuth sample_verify (sample_request None k)
     = Inl \<lparr>status = 401, body = Error ''No Token Is Provided''\<rparr>"
  by (simp_all add: checkAuth_def token_def truthy_def sample_request_def sample_verify_def
      Let_def)

text \<open>
  C3, at the input where the code departs from it. Alice, authenticated, asks to update and
  to delete the comment \<open>c404\<close>, which is not stored: the delete route answers 404, the
  update route answers 401 with the same message.
\<close>

theorem comment_update_missing_is_401:
  "route sample_verify put_comment sample_db (sample_request (Some ''Bearer token-alice'') ''c404'')
     = (\<lparr>status = 401, body = Error ''Comment not found''\<rparr>, sample_db)
   \<and> route sample_verify delete_comment sample_db
        (sample_request (Some ''Bearer token-alice'') ''c404'')
     = (\<lparr>status = 404, body = Error ''Comment not found''\<rparr>, sample_db)"
  unfolding route_def sample_tokens
  by (simp add: put_comment_def delete_comment_def sample_db_def sample_request_def)

text \<open>
  C4, as stated, fails: a token that does not verify is answered 500, not 401.
\<close>

theorem invalid_token_counterexample:
  "route sample_verify post_like sample_db (sample_request (Some ''Bearer forged'') ''v1'')
     = (\<lparr>status = 500, body = ErrorMessage ''something is wrong in auth'' ''jwt malformed''\<rparr>,
        sample_db)"
  unfolding route_def sample_tokens by simp

text \<open>
  C4, amended. On every route behind \<^verbatim>\<open>checkAuth\<close>, a request with no token (no
  Authorization header, or no non-empty second piece in it) is answered 401, and a request
  whose token the verifier rejects is answered 500 with the verifier's message. In both
  cases the handler does not run and the store is untouched.
\<close>

theorem unauthenticated_responses:
  "(\<not> truthy (token req) \<longrightarrow>
      route verify handler d req = (\<lparr>status = 401, body = Error ''No Token Is Provided''\<rparr>, d))
   \<and> (truthy (token req) \<and> verify (the (token req)) = Inl msg \<longrightarrow>
      route verify handler d req =
        (\<lparr>status = 500, body = ErrorMessage ''something is wrong in auth'' msg\<rparr>, d))"
  by (simp add: route_def checkAuth_def)

theorem unauthenticated_responses_witness:
  "\<not> truthy (token (sample_request (Some ''Bearer'') ''v1''))
   \<and> status (fst (route sample_verify post_dislike sample_db
        (sample_request (Some ''Bearer'') ''v1''))) = 401
   \<and> truthy (token (sample_request (Some ''Bearer forged'') ''v1''))
   \<and> sample_verify (the (token (sample_request (Some ''Bearer forged'') ''v1'')))
        = Inl ''jwt malformed''
   \<and> status (fst (route sample_verify post_dislike sample_db
        (sample_request (Some ''Bearer forged'') ''v1''))) = 500"
proof -
  have a: "\<not> truthy (token (sample_request (Some ''Bearer'') ''v1''))"
    by (simp add: token_def truthy_def sample_request_def Let_def)
  have b: "truthy (token (sample_request (Some ''Bearer forged'') ''v1''))"
    "sample_verify (the (token (sample_request (Some ''Bearer forged'') ''v1'')))
       = Inl ''jwt malformed''"
    by (simp_all add: token_def truthy_def sample_request_def sample_verify_def Let_def)
  from unauthenticated_responses
      [where req = "sample_request (Some ''Bearer'') ''v1''" and verify = sample_verify
        and handler = post_dislike and d = sample_db]
    unauthenticated_responses
      [where req = "sample_request (Some ''Bearer forged'') ''v1''" and verify = sample_verify
        and msg = "''jwt malformed''" and handler = post_dislike and d = sample_db]
    a b
  show ?thesis by simp
qed

section \<open>The counters against the reaction map\<close>

lemma reactors_update_same: "reactors (m(x := Some r)) r = insert x (reactors m r)"
  by (auto simp: reactors_def)

lemma reactors_update_other: "r' \<noteq> r \<Longrightarrow> reactors (m(x := Some r)) r' = reactors m r' - {x}"
  by (auto simp: reactors_def)

lemma opposite_neq: "opposite r \<noteq> r"
  by (cases r) simp_all

lemma spec_transition_desired: "spec_transition s r = Some r"
  by (cases s; cases r) (simp_all, (case_tac a; simp)+)

text \<open>
  One call of a reversing sequence: the counter of the desired reaction and the number of
  its reactors both go up by one, the other counter and the number of the opposite reactors
  both go down by one, or both stay at 0.
\<close>

lemma reversing_step:
  assumes fin: "finite (reactors m Liked)" "finite (reactors m Disliked)"
    and cnt: "likes v = int (card (reactors m Liked))"
      "dislikes v = int (card (reactors m Disliked))"
    and adm: "m x = Some (opposite r) \<or> (m x = None \<and> reactors m (opposite r) = {})"
  defines "m' \<equiv> m(x := Some r)"
    and "w \<equiv> (case r of Liked \<Rightarrow> like_update v | Disliked \<Rightarrow> dislike_update v)"
  shows "finite (reactors m' Liked) \<and> finite (reactors m' Disliked)
     \<and> likes w = int (card (reactors m' Liked))
     \<and> dislikes w = int (card (reactors m' Disliked))"
proof -
  have notin: "x \<notin> reactors m r"
    using adm opposite_neq [of r] by (auto simp: reactors_def)
  have same: "reactors m' r = insert x (reactors m r)"
    by (simp add: m'_def reactors_update_same)
  have other: "reactors m' (opposite r) = reactors m (opposite r) - {x}"
    by (simp add: m'_def reactors_update_other opposite_neq)
  have fin_r: "finite (reactors m r)" and fin_o: "finite (reactors m (opposite r))"
    using fin by (cases r; simp)+
  have card_same: "card (reactors m' r) = Suc (card (reactors m r))"
    using notin fin_r by (simp add: same)
  have card_other: "int (card (reactors m' (opposite r)))
      = (if 0 < card (reactors m (opposite r)) then int (card (reactors m (opposite r))) - 1
         else int (card (reactors m (opposite r))))"
  proof (cases "m x = Some (opposite r)")
    case True
    then have "x \<in> reactors m (opposite r)" by (simp add: reactors_def)
    with fin_o have "0 < card (reactors m (opposite r))"
      by (auto simp: card_gt_0_iff)
    moreover have "card (reactors m' (opposite r)) = card (reactors m (opposite r)) - 1"
      using \<open>x \<in> reactors m (opposite r)\<close> fin_o by (simp add: other)
    ultimately show ?thesis by (simp add: of_nat_diff)
  next
    case False
    with adm have "reactors m (opposite r) = {}" by simp
    then show ?thesis by (simp add: other)
  qed
  show ?thesis
  proof (cases r)
    case Liked
    with same other fin card_same card_other cnt show ?thesis
      by (simp add: w_def like_update_simps)
  next
    case Disliked
    with same other fin card_same card_other cnt show ?thesis
      by (simp add: w_def dislike_update_simps)
  qed
qed

lemma reversing_run:
  assumes "finite (reactors m Liked)" and "finite (reactors m Disliked)"
    and "likes v = int (card (reactors m Liked))"
    and "dislikes v = int (card (reactors m Disliked))"
    and "reversing m cs"
  shows "likes (foldl (\<lambda>w c. case snd c of Liked \<Rightarrow> like_update w | Disliked \<Rightarrow> dislike_update w) v cs)
       = int (card (reactors (spec_reactionsByUser m cs) Liked))
     \<and> dislikes (foldl (\<lambda>w c. case snd c of Liked \<Rightarrow> like_update w | Disliked \<Rightarrow> dislike_update w) v cs)
       = int (card (reactors (spec_reactionsByUser m cs) Disliked))"
  using assms
proof (induction cs arbitrary: m v)
  case Nil
  then show ?case by simp
next
  case (Cons c cs)
  obtain u r where c: "c = (u, r)" by (cases c)
  let ?m = "m(jwt_id u := Some r)"
  let ?w = "case r of Liked \<Rightarrow> like_update v | Disliked \<Rightarrow> dislike_update v"
  from Cons.prems(5) have adm:
    "m (jwt_id u) = Some (opposite r) \<or> (m (jwt_id u) = None \<and> reactors m (opposite r) = {})"
    and rest: "reversing ?m cs"
    by (simp_all add: c spec_transition_desired)
  from reversing_step [OF Cons.prems(1-4) adm]
  have inv: "finite (reactors ?m Liked)" "finite (reactors ?m Disliked)"
    "likes ?w = int (card (reactors ?m Liked))"
    "dislikes ?w = int (card (reactors ?m Disliked))"
    by simp_all
  have step: "spec_reactionsByUser m (c # cs) = spec_reactionsByUser ?m cs"
    by (simp add: c spec_transition_desired)
  have run: "foldl (\<lambda>w c. case snd c of Liked \<Rightarrow> like_update w | Disliked \<Rightarrow> dislike_update w)
      v (c # cs)
    = foldl (\<lambda>w c. case snd c of Liked \<Rightarrow> like_update w | Disliked \<Rightarrow> dislike_update w)
      ?w cs"
    by (simp add: c)
  show ?case unfolding step run by (rule Cons.IH [OF inv rest])
qed

lemma reactors_nobody: "reactors (\<lambda>_. None) r = {}"
  by (simp add: reactors_def)

text \<open>
  C2, as stated, fails: after Alice likes and Bob dislikes a new video, one user's current
  reaction is Liked and one user's is Disliked, while the counters are \<open>(0, 1)\<close>.
\<close>

theorem counters_not_reactors_counterexample:
  "counters (run_reactions sample_db (sample_request None ''v1'')
      [(alice, Liked), (bob, Disliked)]) ''v1'' = Some (0, 1)
   \<and> card (reactors (spec_reactionsByUser (\<lambda>_. None) [(alice, Liked), (bob, Disliked)]) Liked) = 1
   \<and> card (reactors (spec_reactionsByUser (\<lambda>_. None) [(alice, Liked), (bob, Disliked)]) Disliked)
       = 1"
proof -
  have h: "body_videoId (sample_request None ''v1'') = Some ''v1''"
    "videos sample_db ''v1'' = Some sample_video"
    by (simp_all add: sample_db_def sample_request_def)
  have code: "counters (run_reactions sample_db (sample_request None ''v1'')
      [(alice, Liked), (bob, Disliked)]) ''v1'' = Some (0, 1)"
    unfolding counters_def run_reactions_video [OF h]
    by (simp add: like_update_simps dislike_update_simps sample_video_def)
  have l: "reactors (spec_reactionsByUser (\<lambda>_. None) [(alice, Liked), (bob, Disliked)]) Liked
      = {''u-alice''}"
    by (auto simp: reactors_def alice_def bob_def split: if_splits)
  have m: "reactors (spec_reactionsByUser (\<lambda>_. None) [(alice, Liked), (bob, Disliked)]) Disliked
      = {''u-bob''}"
    by (auto simp: reactors_def alice_def bob_def split: if_splits)
  show ?thesis unfolding code l m by simp
qed

text \<open>
  C2, amended. Take a video with both counters at 0 and a sequence of like and dislike calls on
  it in which every call either reverses its caller's current reaction, or is its caller's
  first reaction and is made while no user holds the opposite reaction. After the sequence,
  \<open>likes\<close> is the number of users whose current reaction is Liked and \<open>dislikes\<close> the
  number of users whose current reaction is Disliked.
\<close>

theorem counters_follow_reversing_calls:
  assumes "videos d k = Some v" and "likes v = 0" and "dislikes v = 0"
    and "body_videoId req = Some k" and "reversing (\<lambda>_. None) cs"
  shows "counters (run_reactions d req cs) k =
     Some (int (card (reactors (spec_reactionsByUser (\<lambda>_. None) cs) Liked)),
           int (card (reactors (spec_reactionsByUser (\<lambda>_. None) cs) Disliked)))"
proof -
  have "finite (reactors (\<lambda>_. None) Liked)" "finite (reactors (\<lambda>_. None) Disliked)"
    "likes v = int (card (reactors (\<lambda>_. None) Liked))"
    "dislikes v = int (card (reactors (\<lambda>_. None) Disliked))"
    using assms(2,3) by (simp_all add: reactors_nobody)
  from reversing_run [OF this assms(5)] show ?thesis
    unfolding counters_def run_reactions_video [OF assms(4,1)] by simp
qed

theorem counters_follow_reversing_calls_witness:
  "videos sample_db ''v1'' = Some sample_video \<and> likes sample_video = 0
   \<and> dislikes sample_video = 0
   \<and> body_videoId (sample_request None ''v1'') = Some ''v1''
   \<and> reversing (\<lambda>_. None) [(alice, Liked), (bob, Liked), (alice, Disliked)]
   \<and> counters (run_reactions sample_db (sample_request None ''v1'')
        [(alice, Liked), (bob, Liked), (alice, Disliked)]) ''v1'' = Some (1, 1)
   \<and> card (reactors (spec_reactionsByUser (\<lambda>_. None)
        [(alice, Liked), (bob, Liked), (alice, Disliked)]) Liked) = 1
   \<and> card (reactors (spec_reactionsByUser (\<lambda>_. None)
        [(alice, Liked), (bob, Liked), (alice, Disliked)]) Disliked) = 1"
proof -
  let ?cs = "[(alice, Liked), (bob, Liked), (alice, Disliked)]"
  have h: "videos sample_db ''v1'' = Some sample_video" "likes sample_video = 0"
    "dislikes sample_video = 0" "body_videoId (sample_request None ''v1'') = Some ''v1''"
    by (simp_all add: sample_db_def sample_video_def sample_request_def)
  have r: "reversing (\<lambda>_. None) ?cs"
    by (simp add: reactors_def alice_def bob_def)
  have code: "counters (run_reactions sample_db (sample_request None ''v1'') ?cs) ''v1''
      = Some (1, 1)"
    unfolding counters_def run_reactions_video [OF h(4,1)]
    by (simp add: like_update_simps dislike_update_simps sample_video_def)
  from counters_follow_reversing_calls [OF h r] code h r show ?thesis
    by simp
qed

end
